theory Spec2Isabelle
  imports Main
begin

section \<open>Gas and storage-limit estimation of the transaction controller\<close>

text \<open>
  A shallow embedding of \<^verbatim>\<open>app/scripts/controllers/transactions/tx-gas-utils.js\<close>
  (class \<^verbatim>\<open>TxGasUtil\<close>). JavaScript values are modelled as follows.
  \<^item> A property that holds a string or is \<^verbatim>\<open>undefined\<close> is a \<open>string option\<close>;
    \<open>None\<close> is \<^verbatim>\<open>undefined\<close> (or the property being absent).
  \<^item> The flags \<^verbatim>\<open>simpleSend\<close>, \<^verbatim>\<open>gasLimitSpecified\<close> and
    \<^verbatim>\<open>storageLimitSpecified\<close> are only ever tested for truthiness and assigned
    booleans, so they are \<open>bool\<close> (\<open>False\<close> also stands for \<^verbatim>\<open>undefined\<close>).
  \<^item> The record \<^verbatim>\<open>txMeta\<close> is mutated in place by the source; every function of
    the model takes the record and returns the updated one.
  \<^item> A rejected promise or a \<^verbatim>\<open>throw\<close> is the \<open>Inl\<close> arm of a sum.
  \<^item> A \<^verbatim>\<open>BN\<close> is its value, a natural number, where only whole-number arithmetic
    touches it, and its list of 26-bit words where the code depends on them.
\<close>

subsection \<open>Data\<close>

record txParams =
  to :: "string option"
  data :: "string option"
  gas :: "string option"
  storageLimit :: "string option"

text \<open>The object \<^verbatim>\<open>{ gasUsed, storageCollateralized }\<close>.\<close>

record estimate =
  gasUsed :: "string option"
  storageCollateralized :: "string option"

text \<open>
  What \<^verbatim>\<open>estimateTxGasAndCollateral\<close> resolves to: an object with the two
  properties (lines 88 and 128), or the bare string \<^verbatim>\<open>SIMPLE_GAS_COST\<close> (line 118).
\<close>

datatype returned = Obj estimate | Str string

text \<open>
  An \<^verbatim>\<open>Error\<close> object with the properties the code reads and writes.
\<close>

record js_error =
  err_message :: string
  err_errorKey :: "string option"
  err_getCodeResponse :: "string option"

text \<open>
  \<^verbatim>\<open>simulationFails.debug\<close>. The property \<^verbatim>\<open>getCodeResponse\<close> is only created at
  line 52: \<open>None\<close> is the property never assigned, \<open>Some r\<close> is the property
  assigned the value \<open>r\<close>.
\<close>

record debug_info =
  blockNumber :: string
  blockGasLimit :: string
  getCodeResponse :: "string option option"

record simulation_fails =
  reason :: string
  errorKey :: "string option"
  debug :: debug_info

record txMeta =
  txParams :: txParams
  transactionCategory :: "string option"
  simpleSend :: bool
  gasLimitSpecified :: bool
  storageLimitSpecified :: bool
  estimatedGas :: "string option"
  estimatedStorage :: "string option"
  simulationFails :: "simulation_fails option"

text \<open>The block returned by \<^verbatim>\<open>getBlockByNumber('latest', false)\<close>.\<close>

record block =
  number :: string
  gasLimit :: string

text \<open>
  Everything the class takes from outside the file: the two constants imported from
  \<^verbatim>\<open>ui/app/helpers/constants\<close>, the address classifier of \<^verbatim>\<open>cfx-util\<close> and the
  two remote calls of the query object (\<^verbatim>\<open>getBlockByNumber\<close> is only ever called
  with \<^verbatim>\<open>('latest', false)\<close>, so it is the outcome of that call).
\<close>

record env =
  SEND_ETHER_ACTION_KEY :: string
  TRANSACTION_NO_CONTRACT_ERROR_KEY :: string
  isValidContractAddress :: "string \<Rightarrow> bool"
  getBlockByNumber :: "js_error + block"
  estimateGas :: "txParams \<Rightarrow> js_error + estimate"

subsection \<open>Constants and primitives\<close>

definition SIMPLE_GAS_COST :: string where
  "SIMPLE_GAS_COST = ''0x5208''"

definition SIMPLE_STORAGE_COST :: string where
  "SIMPLE_STORAGE_COST = ''0x0''"

text \<open>
  JavaScript truthiness of a value that is a string or \<^verbatim>\<open>undefined\<close>
  (\<^verbatim>\<open>Boolean(x)\<close>, \<^verbatim>\<open>if (x)\<close>): only \<^verbatim>\<open>undefined\<close> and the empty string are falsy.
\<close>

definition truthy :: "string option \<Rightarrow> bool" where
  "truthy v = (case v of None \<Rightarrow> False | Some s \<Rightarrow> s \<noteq> [])"

text \<open>
  \<^verbatim>\<open>addHexPrefix\<close> of \<^verbatim>\<open>cfx-util\<close>: a value that is not a string is returned as it
  is, a string gets \<^verbatim>\<open>0x\<close> in front unless it starts with it.
\<close>

definition addHexPrefix :: "string option \<Rightarrow> string option" where
  "addHexPrefix v =
     (case v of None \<Rightarrow> None
      | Some s \<Rightarrow> if take 2 s = ''0x'' then Some s else Some (''0x'' @ s))"

text \<open>
  Modelled from the spec: \<^verbatim>\<open>hexToBn\<close>, \<^verbatim>\<open>bnToHex\<close> and \<^verbatim>\<open>BnMultiplyByFraction\<close>
  of \<^verbatim>\<open>app/scripts/lib/util.js\<close>, which is not among the sources. The spec (Numeric
  Primitives) asks for an arbitrary-precision unsigned integer with a hex-string
  round trip and an exact, truncating fraction scaling
  \<^verbatim>\<open>value * numerator / denominator\<close>. A string that is not hexadecimal has no
  meaning in the spec; its foreign characters count as the digit 0 here.
\<close>

definition hex_val :: "char \<Rightarrow> nat" where
  "hex_val c =
     (let k = (of_char c :: nat) in
      if 48 \<le> k \<and> k \<le> 57 then k - 48
      else if 97 \<le> k \<and> k \<le> 102 then k - 87
      else if 65 \<le> k \<and> k \<le> 70 then k - 55
      else 0)"

definition hex_digit :: "nat \<Rightarrow> char" where
  "hex_digit d = ''0123456789abcdef'' ! d"

definition stripHexPrefix :: "string \<Rightarrow> string" where
  "stripHexPrefix s = (if take 2 s = ''0x'' then drop 2 s else s)"

definition hexToBn :: "string \<Rightarrow> nat" where
  "hexToBn s = foldl (\<lambda>acc c. acc * 16 + hex_val c) 0 (stripHexPrefix s)"

fun hex_digits :: "nat \<Rightarrow> string" where
  "hex_digits n = (if n < 16 then [hex_digit n] else hex_digits (n div 16) @ [hex_digit (n mod 16)])"

declare hex_digits.simps [simp del]

definition bnToHex :: "nat \<Rightarrow> string" where
  "bnToHex n = ''0x'' @ hex_digits n"

definition BnMultiplyByFraction :: "nat \<Rightarrow> nat \<Rightarrow> nat \<Rightarrow> nat" where
  "BnMultiplyByFraction targetBN numerator denominator = targetBN * numerator div denominator"

subsection \<open>Big numbers as lists of words\<close>

text \<open>
  The class \<^verbatim>\<open>BN\<close> that \<^verbatim>\<open>hexToBn\<close> constructs is the one of the library
  \<^verbatim>\<open>bn.js\<close> (it comes with \<^verbatim>\<open>cfx-util\<close> and is not among the sources). A number is
  kept in the array \<^verbatim>\<open>words\<close> of 26-bit words, least significant first, of which
  the first \<^verbatim>\<open>length\<close> count. The constructor and the whole-number operations leave no
  zero word at the top: a freshly built number is \<open>words_of\<close> its value, the number 0
  being the single word 0. The fallback of lines 123--125 only uses such operations
  and is modelled on values. \<^verbatim>\<open>addGasBuffer\<close> calls \<^verbatim>\<open>muln\<close> with the fractions
  \<^verbatim>\<open>0.9\<close> and \<^verbatim>\<open>1.5\<close> and compares the results; both depend on the words and not
  only on the value, so there the words are modelled, after the library's
  \<^verbatim>\<open>imuln\<close>, \<^verbatim>\<open>ucmp\<close>, \<^verbatim>\<open>gt\<close> and \<^verbatim>\<open>lt\<close>. The number 67108864 is
  \<^verbatim>\<open>0x4000000\<close>, two to the power 26.
\<close>

type_synonym BN = "nat list"

fun words_of :: "nat \<Rightarrow> BN" where
  "words_of n = (if n < 67108864 then [n] else (n mod 67108864) # words_of (n div 67108864))"

declare words_of.simps [simp del]

fun value_of :: "BN \<Rightarrow> nat" where
  "value_of [] = 0"
| "value_of (w # ws) = w + 67108864 * value_of ws"

text \<open>
  \<^verbatim>\<open>muln(num)\<close> is \<^verbatim>\<open>imuln(num)\<close> on a copy. \<^verbatim>\<open>imuln\<close> walks the words upwards,
  with \<^verbatim>\<open>carry\<close> starting at 0:
  \<^verbatim>\<open>w = words[i] * num; lo = (w & 0x3ffffff) + (carry & 0x3ffffff); carry >>= 26;\<close>
  \<^verbatim>\<open>carry += (w / 0x4000000) | 0; carry += lo >>> 26; words[i] = lo & 0x3ffffff\<close>;
  a carry that is left becomes one more word, and no zero word is removed afterwards.
  Here \<^verbatim>\<open>w\<close> is a double, and the bit operations take its whole part. The multiplier
  is given as a fraction \<open>p/q\<close>, \<open>(9, 10)\<close> for \<^verbatim>\<open>0.9\<close> and \<open>(3, 2)\<close> for \<^verbatim>\<open>1.5\<close>,
  and the whole part of \<^verbatim>\<open>w\<close> is \<open>\<lfloor>words[i] * p / q\<rfloor>\<close>: a word is below
  \<open>2\<^sup>2\<^sup>6\<close>, so its product with 1.5 is exact in a double, and its product with the
  double next to 0.9 (which is above 9/10 by less than \<open>10\<^sup>-\<^sup>1\<^sup>6\<close>) is rounded to a
  double that is not below \<open>words[i] * 9 / 10\<close> when that is whole and differs from it
  by less than \<open>10\<^sup>-\<^sup>8\<close> in any case, the fraction being whole or at least 1/10 away
  from the next whole number.
\<close>

fun imuln :: "nat \<Rightarrow> nat \<Rightarrow> nat \<Rightarrow> BN \<Rightarrow> BN" where
  "imuln p q carry [] = (if carry \<noteq> 0 then [carry] else [])"
| "imuln p q carry (x # xs) =
     (let w = x * p div q;
          lo = w mod 67108864 + carry mod 67108864
      in (lo mod 67108864)
         # imuln p q (carry div 67108864 + w div 67108864 + lo div 67108864) xs)"

definition muln :: "BN \<Rightarrow> nat \<times> nat \<Rightarrow> BN" where
  "muln ws num = imuln (fst num) (snd num) 0 ws"

text \<open>
  \<^verbatim>\<open>ucmp\<close> compares the two \<^verbatim>\<open>length\<close>s first and only for equal lengths the words,
  from the top one down. \<^verbatim>\<open>cmp\<close> is \<^verbatim>\<open>ucmp\<close> for numbers that are not negative, as
  all numbers are here; \<^verbatim>\<open>gt\<close> tests it for 1 and \<^verbatim>\<open>lt\<close> for -1.
\<close>

fun ucmp_from_top :: "nat list \<Rightarrow> nat list \<Rightarrow> int" where
  "ucmp_from_top (x # xs) (y # ys) =
     (if x = y then ucmp_from_top xs ys else if x < y then - 1 else 1)"
| "ucmp_from_top _ _ = 0"

definition ucmp :: "BN \<Rightarrow> BN \<Rightarrow> int" where
  "ucmp x y =
     (if length x > length y then 1
      else if length x < length y then - 1
      else ucmp_from_top (rev x) (rev y))"

definition gt :: "BN \<Rightarrow> BN \<Rightarrow> bool" where
  "gt x y = (ucmp x y = 1)"

definition lt :: "BN \<Rightarrow> BN \<Rightarrow> bool" where
  "lt x y = (ucmp x y = - 1)"

subsection \<open>The buffer calculator (lines 180--196)\<close>

text \<open>
  \<^verbatim>\<open>bnToHex\<close> of a number given by its words is the numeral of its value (zero words
  at the top can at most put zeros in front of the numeral, which \<^verbatim>\<open>hexToBn\<close> reads
  back as the same number).
\<close>

definition addGasBuffer :: "string \<Rightarrow> string \<Rightarrow> string" where
  "addGasBuffer initialGasLimitHex blockGasLimitHex =
     (let initialGasLimitBn = words_of (hexToBn initialGasLimitHex);
          blockGasLimitBn = words_of (hexToBn blockGasLimitHex);
          upperGasLimitBn = muln blockGasLimitBn (9, 10);
          bufferedGasLimitBn = muln initialGasLimitBn (3, 2)
      in if gt initialGasLimitBn upperGasLimitBn then bnToHex (value_of initialGasLimitBn)
         else if lt bufferedGasLimitBn upperGasLimitBn then bnToHex (value_of bufferedGasLimitBn)
         else bnToHex (value_of upperGasLimitBn))"

subsection \<open>The estimator (lines 70--129)\<close>

text \<open>
  The result has three parts: what the promise settles to (\<open>Inl\<close> the thrown error),
  the record \<^verbatim>\<open>txMeta\<close> as the call leaves it, and the requests sent to the
  adapter's \<^verbatim>\<open>estimateGas\<close> during the call, in order.
\<close>

definition estimateTxGasAndCollateral ::
  "env \<Rightarrow> txMeta \<Rightarrow> string \<Rightarrow> string option \<Rightarrow> (js_error + returned) \<times> txMeta \<times> txParams list" where
  "estimateTxGasAndCollateral e txMeta0 blockGasLimitHex codeResponse =
     (let m1 = (if (case to (txParams txMeta0) of None \<Rightarrow> False
                     | Some a \<Rightarrow> a \<noteq> [] \<and> \<not> isValidContractAddress e a)
                then txMeta0\<lparr>simpleSend := True\<rparr> else txMeta0);
          m2 = m1\<lparr>gasLimitSpecified := truthy (gas (txParams m1)),
                  storageLimitSpecified := truthy (storageLimit (txParams m1))\<rparr>;
          m3 = (if \<not> storageLimitSpecified m2
                then m2\<lparr>txParams := (txParams m2)\<lparr>storageLimit := Some SIMPLE_STORAGE_COST\<rparr>,
                        storageLimitSpecified := True\<rparr>
                else m2)
      in if gasLimitSpecified m3 \<and> storageLimitSpecified m3
         then (Inr (Obj \<lparr>gasUsed = gas (txParams m3),
                          storageCollateralized = storageLimit (txParams m3)\<rparr>), m3, [])
         else
           let recipient = to (txParams m3);
               hasRecipient = truthy recipient;
               categorizedAsSimple = (transactionCategory m3 = Some (SEND_ETHER_ACTION_KEY e))
           in if hasRecipient \<and> categorizedAsSimple
              then
                if truthy (data (txParams m3))
                then (Inl \<lparr>err_message = ''TxGasUtil - Trying to call a function on a non-contract address'',
                           err_errorKey = Some (TRANSACTION_NO_CONTRACT_ERROR_KEY e),
                           err_getCodeResponse = codeResponse\<rparr>, m3, [])
                else (Inr (Str SIMPLE_GAS_COST),
                      m3\<lparr>txParams := (txParams m3)\<lparr>gas := Some SIMPLE_GAS_COST\<rparr>,
                         simpleSend := True\<rparr>, [])
              else
                let blockGasLimitBN = hexToBn blockGasLimitHex;
                    saferGasLimitBN = BnMultiplyByFraction blockGasLimitBN 19 20;
                    m4 = m3\<lparr>txParams := (txParams m3)\<lparr>gas := Some (bnToHex saferGasLimitBN)\<rparr>\<rparr>
                in (map_sum id Obj (estimateGas e (txParams m4)), m4, [txParams m4]))"

subsection \<open>The metadata writer (lines 137--171)\<close>

text \<open>
  Destructuring \<^verbatim>\<open>{ gasUsed, storageCollateralized }\<close> from the resolved value: a
  string has neither property, both names are then \<^verbatim>\<open>undefined\<close>.
\<close>

fun gasUsed_of :: "returned \<Rightarrow> string option" where
  "gasUsed_of (Obj r) = gasUsed r"
| "gasUsed_of (Str s) = None"

fun storageCollateralized_of :: "returned \<Rightarrow> string option" where
  "storageCollateralized_of (Obj r) = storageCollateralized r"
| "storageCollateralized_of (Str s) = None"

text \<open>
  \<^verbatim>\<open>hexToBn\<close> of a value that may be \<^verbatim>\<open>undefined\<close> (line 162 passes
  \<^verbatim>\<open>txMeta.estimatedGas\<close>): the prefix stripper returns a non-string as it is and the
  big-number constructor reads \<^verbatim>\<open>undefined\<close> as 0, which is also the value of the
  empty string.
\<close>

definition hex_of_value :: "string option \<Rightarrow> string" where
  "hex_of_value v = (case v of None \<Rightarrow> [] | Some s \<Rightarrow> s)"

definition setTxGas :: "txMeta \<Rightarrow> string \<Rightarrow> string option \<Rightarrow> string option \<Rightarrow> txMeta" where
  "setTxGas txMeta0 blockGasLimitHex estimatedGasHex estimatedStorageHex =
     (let m1 = txMeta0\<lparr>estimatedGas := addHexPrefix estimatedGasHex,
                       estimatedStorage := addHexPrefix estimatedStorageHex\<rparr>
      in if simpleSend m1
         then m1\<lparr>estimatedGas := gas (txParams m1),
                 estimatedStorage := Some SIMPLE_STORAGE_COST\<rparr>
         else
           let m2 = (if storageLimitSpecified m1
                     then m1\<lparr>estimatedStorage := storageLimit (txParams m1)\<rparr> else m1)
           in if gasLimitSpecified m2
              then m2\<lparr>estimatedGas := gas (txParams m2)\<rparr>
              else
                let recommendedGasHex = addGasBuffer (hex_of_value (estimatedGas m2)) blockGasLimitHex;
                    m3 = m2\<lparr>txParams := (txParams m2)\<lparr>gas := Some recommendedGasHex\<rparr>\<rparr>
                in if \<not> storageLimitSpecified m3
                   then m3\<lparr>txParams := (txParams m3)\<lparr>storageLimit := estimatedStorage m3\<rparr>\<rparr>
                   else m3)"

subsection \<open>The entry point (lines 28--62)\<close>

text \<open>
  The first part of the result is the rejection that reaches the caller, \<open>None\<close> when
  the promise resolves (to the record itself); the second is the record as the call
  leaves it; the third lists the \<^verbatim>\<open>estimateGas\<close> requests sent.
\<close>

definition analyzeGasUsage ::
  "env \<Rightarrow> txMeta \<Rightarrow> string option \<Rightarrow> js_error option \<times> txMeta \<times> txParams list" where
  "analyzeGasUsage e txMeta0 codeResponse =
     (case getBlockByNumber e of
        Inl err \<Rightarrow> (Some err, txMeta0, [])
      | Inr blk \<Rightarrow>
          (case estimateTxGasAndCollateral e txMeta0 (gasLimit blk) codeResponse of
             (Inl err, m, reqs) \<Rightarrow>
               (None,
                m\<lparr>simulationFails := Some
                    \<lparr>reason = err_message err,
                     errorKey = err_errorKey err,
                     debug = \<lparr>blockNumber = number blk,
                              blockGasLimit = gasLimit blk,
                              getCodeResponse =
                                (if err_errorKey err = Some (TRANSACTION_NO_CONTRACT_ERROR_KEY e)
                                 then Some (err_getCodeResponse err) else None)\<rparr>\<rparr>\<rparr>,
                reqs)
           | (Inr r, m, reqs) \<Rightarrow>
               (None, setTxGas m (gasLimit blk) (gasUsed_of r) (storageCollateralized_of r), reqs)))"

subsection \<open>Sample inputs\<close>

text \<open>
  A provider whose latest block has the gas limit 100000 and whose \<^verbatim>\<open>estimateGas\<close>
  answers 10000 gas and 64 units of collateral; contract addresses are the ones that
  start with \<^verbatim>\<open>0x8\<close>. Two variants: one whose
  \<^verbatim>\<open>estimateGas\<close> is rejected and one that cannot fetch the block.
\<close>

definition sample_block :: block where
  "sample_block = \<lparr>number = ''0x2a'', gasLimit = ''0x0186A0''\<rparr>"

definition sample_env :: env where
  "sample_env =
     \<lparr>SEND_ETHER_ACTION_KEY = ''sentEther'',
      TRANSACTION_NO_CONTRACT_ERROR_KEY = ''transactionErrorNoContract'',
      isValidContractAddress = (\<lambda>a. take 3 a = ''0x8''),
      getBlockByNumber = Inr sample_block,
      estimateGas = (\<lambda>p. Inr \<lparr>gasUsed = Some ''0x2710'', storageCollateralized = Some ''0x40''\<rparr>)\<rparr>"

definition reverted :: js_error where
  "reverted = \<lparr>err_message = ''execution reverted'', err_errorKey = None,
                err_getCodeResponse = None\<rparr>"

definition rejecting_env :: env where
  "rejecting_env = sample_env\<lparr>estimateGas := (\<lambda>p. Inl reverted)\<rparr>"

definition unreachable :: js_error where
  "unreachable = \<lparr>err_message = ''network unreachable'', err_errorKey = None,
                   err_getCodeResponse = None\<rparr>"

definition offline_env :: env where
  "offline_env = sample_env\<lparr>getBlockByNumber := Inl unreachable\<rparr>"

text \<open>A freshly proposed transaction, nothing filled in.\<close>

definition blank_txMeta :: txMeta where
  "blank_txMeta =
     \<lparr>txParams = \<lparr>to = None, data = None, gas = None, storageLimit = None\<rparr>,
      transactionCategory = None, simpleSend = False, gasLimitSpecified = False,
      storageLimitSpecified = False, estimatedGas = None, estimatedStorage = None,
      simulationFails = None\<rparr>"

text \<open>The same with both limits given by the caller.\<close>

definition specified_txMeta :: txMeta where
  "specified_txMeta =
     blank_txMeta\<lparr>txParams := \<lparr>to = Some ''0x8a11'', data = Some ''0xa9059cbb'',
                                  gas = Some ''0x7530'', storageLimit = Some ''0x80''\<rparr>\<rparr>"

text \<open>A plain transfer to an account that is not a contract.\<close>

definition transfer_txMeta :: txMeta where
  "transfer_txMeta =
     blank_txMeta\<lparr>txParams := \<lparr>to = Some ''0x1b0b'', data = Some [],
                                  gas = None, storageLimit = None\<rparr>,
                   transactionCategory := Some ''sentEther''\<rparr>"

text \<open>The same transfer with call data attached.\<close>

definition payload_txMeta :: txMeta where
  "payload_txMeta =
     blank_txMeta\<lparr>txParams := \<lparr>to = Some ''0x1b0b'', data = Some ''0xa9059cbb'',
                                  gas = None, storageLimit = None\<rparr>,
                   transactionCategory := Some ''sentEther''\<rparr>"

text \<open>A contract call whose caller fixed the storage limit only.\<close>

definition call_txMeta :: txMeta where
  "call_txMeta =
     blank_txMeta\<lparr>txParams := \<lparr>to = Some ''0x8a11'', data = Some ''0xa9059cbb'',
                                  gas = None, storageLimit = Some ''0x80''\<rparr>,
                   transactionCategory := Some ''contractInteraction''\<rparr>"

lemmas sample_defs =
  sample_block_def sample_env_def reverted_def rejecting_env_def unreachable_def offline_env_def
  blank_txMeta_def specified_txMeta_def transfer_txMeta_def payload_txMeta_def call_txMeta_def

section \<open>Properties\<close>

subsection \<open>The hex round trip\<close>

lemma hex_val_digit_upto: "\<forall>d \<in> set [0..<16]. hex_val (hex_digit d) = d"
  by code_simp

lemma hex_val_digit: "d < 16 \<Longrightarrow> hex_val (hex_digit d) = d"
  using hex_val_digit_upto by simp

lemma parse_hex_digits: "foldl (\<lambda>acc c. acc * 16 + hex_val c) 0 (hex_digits n) = n"
proof (induction n rule: hex_digits.induct)
  case (1 n)
  show ?case
  proof (cases "n < 16")
    case True
    then show ?thesis
      by (subst hex_digits.simps) (simp add: hex_val_digit)
  next
    case False
    with 1 have "foldl (\<lambda>acc c. acc * 16 + hex_val c) 0 (hex_digits (n div 16)) = n div 16"
      by simp
    with False show ?thesis
      by (subst hex_digits.simps) (simp add: hex_val_digit)
  qed
qed

lemma hexToBn_bnToHex: "hexToBn (bnToHex n) = n"
  by (simp add: hexToBn_def bnToHex_def stripHexPrefix_def parse_hex_digits)

subsection \<open>The estimator's bookkeeping\<close>

lemma estimate_marks_storage_specified:
  "storageLimitSpecified (fst (snd (estimateTxGasAndCollateral e m lim cr)))"
  by (simp add: estimateTxGasAndCollateral_def Let_def)

lemma estimate_storageLimit:
  "storageLimit (txParams (fst (snd (estimateTxGasAndCollateral e m lim cr)))) =
     (if truthy (storageLimit (txParams m)) then storageLimit (txParams m)
      else Some SIMPLE_STORAGE_COST)"
  by (simp add: estimateTxGasAndCollateral_def Let_def)

lemma setTxGas_flag: "storageLimitSpecified (setTxGas m lim g s) = storageLimitSpecified m"
  by (simp add: setTxGas_def Let_def)

lemma setTxGas_keeps_storageLimit:
  "storageLimitSpecified m \<Longrightarrow>
     storageLimit (txParams (setTxGas m lim g s)) = storageLimit (txParams m)"
  by (simp add: setTxGas_def Let_def)

subsection \<open>Caller-specified limits\<close>

text \<open>
  Claim C3. When the caller gave a non-empty \<^verbatim>\<open>gas\<close> and a non-empty
  \<^verbatim>\<open>storageLimit\<close>, \<^verbatim>\<open>estimateTxGasAndCollateral\<close> resolves to exactly that pair,
  sends no \<^verbatim>\<open>estimateGas\<close> request and leaves \<^verbatim>\<open>txParams\<close> as it was (so no
  fallback is written); the whole of \<^verbatim>\<open>analyzeGasUsage\<close> sends no request either and
  finishes with \<^verbatim>\<open>txParams\<close> unchanged.
\<close>

theorem specified_limits_short_circuit:
  assumes "truthy (gas (txParams m))" and "truthy (storageLimit (txParams m))"
  shows "fst (estimateTxGasAndCollateral e m lim cr) =
           Inr (Obj \<lparr>gasUsed = gas (txParams m),
                      storageCollateralized = storageLimit (txParams m)\<rparr>)
       \<and> snd (snd (estimateTxGasAndCollateral e m lim cr)) = []
       \<and> txParams (fst (snd (estimateTxGasAndCollateral e m lim cr))) = txParams m
       \<and> snd (snd (analyzeGasUsage e m cr)) = []
       \<and> txParams (fst (snd (analyzeGasUsage e m cr))) = txParams m"
  using assms
  by (simp add: estimateTxGasAndCollateral_def analyzeGasUsage_def setTxGas_def Let_def
      split: sum.splits option.splits)

theorem specified_limits_short_circuit_witness:
  "truthy (gas (txParams specified_txMeta))
   \<and> truthy (storageLimit (txParams specified_txMeta))
   \<and> fst (estimateTxGasAndCollateral sample_env specified_txMeta ''0x0186A0'' None) =
       Inr (Obj \<lparr>gasUsed = Some ''0x7530'', storageCollateralized = Some ''0x80''\<rparr>)
   \<and> snd (snd (analyzeGasUsage sample_env specified_txMeta None)) = []
   \<and> gas (txParams (fst (snd (analyzeGasUsage sample_env specified_txMeta None)))) = Some ''0x7530''
   \<and> storageLimit (txParams (fst (snd (analyzeGasUsage sample_env specified_txMeta None)))) =
       Some ''0x80''"
proof -
  have g: "truthy (gas (txParams specified_txMeta))"
    by (simp add: sample_defs truthy_def)
  have s: "truthy (storageLimit (txParams specified_txMeta))"
    by (simp add: sample_defs truthy_def)
  from specified_limits_short_circuit [OF g s, of sample_env "''0x0186A0''" None]
  show ?thesis
    using g s by (simp add: sample_defs)
qed

subsection \<open>Simple transfers\<close>

text \<open>
  Claim C4. A transaction to a recipient that the classifier does not take for a
  contract, categorised as a plain transfer, with no call data and no gas given by the
  caller: once the block is fetched, \<^verbatim>\<open>analyzeGasUsage\<close> resolves with
  \<^verbatim>\<open>estimatedGas = 0x5208\<close>, \<^verbatim>\<open>estimatedStorage = 0x0\<close> and \<^verbatim>\<open>params.gas = 0x5208\<close>;
  no failure is recorded, no request is sent and no buffer is added.
\<close>

theorem simple_transfer_fixed_cost:
  assumes "to (txParams m) = Some a" and "a \<noteq> []" and "\<not> isValidContractAddress e a"
    and "transactionCategory m = Some (SEND_ETHER_ACTION_KEY e)"
    and "\<not> truthy (data (txParams m))" and "\<not> truthy (gas (txParams m))"
    and "getBlockByNumber e = Inr blk"
  shows "fst (analyzeGasUsage e m cr) = None
       \<and> estimatedGas (fst (snd (analyzeGasUsage e m cr))) = Some ''0x5208''
       \<and> estimatedStorage (fst (snd (analyzeGasUsage e m cr))) = Some ''0x0''
       \<and> gas (txParams (fst (snd (analyzeGasUsage e m cr)))) = Some ''0x5208''
       \<and> simulationFails (fst (snd (analyzeGasUsage e m cr))) = simulationFails m
       \<and> snd (snd (analyzeGasUsage e m cr)) = []"
  using assms
  by (simp add: estimateTxGasAndCollateral_def analyzeGasUsage_def setTxGas_def Let_def
      truthy_def SIMPLE_GAS_COST_def SIMPLE_STORAGE_COST_def addHexPrefix_def)

theorem simple_transfer_fixed_cost_witness:
  "to (txParams transfer_txMeta) = Some ''0x1b0b''
   \<and> \<not> isValidContractAddress sample_env ''0x1b0b''
   \<and> \<not> truthy (data (txParams transfer_txMeta))
   \<and> \<not> truthy (gas (txParams transfer_txMeta))
   \<and> estimatedGas (fst (snd (analyzeGasUsage sample_env transfer_txMeta None))) = Some ''0x5208''
   \<and> estimatedStorage (fst (snd (analyzeGasUsage sample_env transfer_txMeta None))) = Some ''0x0''
   \<and> gas (txParams (fst (snd (analyzeGasUsage sample_env transfer_txMeta None)))) = Some ''0x5208''"
proof -
  have h1: "to (txParams transfer_txMeta) = Some ''0x1b0b''"
    and h2: "''0x1b0b'' \<noteq> []"
    and h3: "\<not> isValidContractAddress sample_env ''0x1b0b''"
    and h4: "transactionCategory transfer_txMeta = Some (SEND_ETHER_ACTION_KEY sample_env)"
    and h5: "\<not> truthy (data (txParams transfer_txMeta))"
    and h6: "\<not> truthy (gas (txParams transfer_txMeta))"
    and h7: "getBlockByNumber sample_env = Inr sample_block"
    by (simp_all add: sample_defs truthy_def)
  from simple_transfer_fixed_cost [OF h1 h2 h3 h4 h5 h6 h7, of None]
  show ?thesis
    using h1 h3 h5 h6 by simp
qed

text \<open>
  Claim C5. A transaction with a recipient, categorised as a plain transfer, that
  carries call data and no caller-given gas: the estimator throws the non-contract-call
  error, \<^verbatim>\<open>analyzeGasUsage\<close> catches it (nothing reaches the caller), records it in
  \<^verbatim>\<open>simulationFails\<close> with the non-contract error key and with the code-lookup
  response added to \<^verbatim>\<open>debug\<close>, and \<^verbatim>\<open>params.gas\<close> is as before.
\<close>

theorem transfer_with_data_rejected:
  assumes "truthy (to (txParams m))"
    and "transactionCategory m = Some (SEND_ETHER_ACTION_KEY e)"
    and "truthy (data (txParams m))" and "\<not> truthy (gas (txParams m))"
    and "getBlockByNumber e = Inr blk"
  shows "fst (estimateTxGasAndCollateral e m (gasLimit blk) cr) =
           Inl \<lparr>err_message = ''TxGasUtil - Trying to call a function on a non-contract address'',
                err_errorKey = Some (TRANSACTION_NO_CONTRACT_ERROR_KEY e),
                err_getCodeResponse = cr\<rparr>
       \<and> fst (analyzeGasUsage e m cr) = None
       \<and> simulationFails (fst (snd (analyzeGasUsage e m cr))) = Some
           \<lparr>reason = ''TxGasUtil - Trying to call a function on a non-contract address'',
            errorKey = Some (TRANSACTION_NO_CONTRACT_ERROR_KEY e),
            debug = \<lparr>blockNumber = number blk, blockGasLimit = gasLimit blk,
                     getCodeResponse = Some cr\<rparr>\<rparr>
       \<and> gas (txParams (fst (snd (analyzeGasUsage e m cr)))) = gas (txParams m)
       \<and> snd (snd (analyzeGasUsage e m cr)) = []"
  using assms
  by (simp add: estimateTxGasAndCollateral_def analyzeGasUsage_def Let_def)

theorem transfer_with_data_rejected_witness:
  "truthy (to (txParams payload_txMeta))
   \<and> truthy (data (txParams payload_txMeta))
   \<and> \<not> truthy (gas (txParams payload_txMeta))
   \<and> fst (analyzeGasUsage sample_env payload_txMeta (Some ''0x'')) = None
   \<and> simulationFails (fst (snd (analyzeGasUsage sample_env payload_txMeta (Some ''0x'')))) = Some
       \<lparr>reason = ''TxGasUtil - Trying to call a function on a non-contract address'',
        errorKey = Some ''transactionErrorNoContract'',
        debug = \<lparr>blockNumber = ''0x2a'', blockGasLimit = ''0x0186A0'',
                 getCodeResponse = Some (Some ''0x'')\<rparr>\<rparr>
   \<and> gas (txParams (fst (snd (analyzeGasUsage sample_env payload_txMeta (Some ''0x''))))) = None"
proof -
  have h1: "truthy (to (txParams payload_txMeta))"
    and h2: "transactionCategory payload_txMeta = Some (SEND_ETHER_ACTION_KEY sample_env)"
    and h3: "truthy (data (txParams payload_txMeta))"
    and h4: "\<not> truthy (gas (txParams payload_txMeta))"
    and h5: "getBlockByNumber sample_env = Inr sample_block"
    by (simp_all add: sample_defs truthy_def)
  from transfer_with_data_rejected [OF h1 h2 h3 h4 h5, of "Some ''0x''"]
  show ?thesis
    using h1 h3 h4 by (simp add: sample_defs)
qed

subsection \<open>Fallback and network estimate\<close>

text \<open>
  Claim C6. When the caller gave no gas and the transaction is not a recognised simple
  transfer (no recipient, or a category other than the plain transfer), the estimator
  writes the hex string of \<open>\<lfloor>blockGasLimit * 19 / 20\<rfloor>\<close> into \<^verbatim>\<open>params.gas\<close>, sends
  exactly one \<^verbatim>\<open>estimateGas\<close> request, with the parameters so updated, and settles to
  what that request settles to.
\<close>

theorem fallback_then_network_estimate:
  assumes "\<not> truthy (gas (txParams m))"
    and "\<not> (truthy (to (txParams m)) \<and> transactionCategory m = Some (SEND_ETHER_ACTION_KEY e))"
  shows "\<exists>p'. txParams (fst (snd (estimateTxGasAndCollateral e m lim cr))) = p'
       \<and> gas p' = Some (bnToHex (hexToBn lim * 19 div 20))
       \<and> hexToBn (bnToHex (hexToBn lim * 19 div 20)) = hexToBn lim * 19 div 20
       \<and> snd (snd (estimateTxGasAndCollateral e m lim cr)) = [p']
       \<and> fst (estimateTxGasAndCollateral e m lim cr) = map_sum id Obj (estimateGas e p')"
  using assms
  by (auto simp add: estimateTxGasAndCollateral_def Let_def BnMultiplyByFraction_def
      hexToBn_bnToHex)

theorem fallback_then_network_estimate_witness:
  "\<not> truthy (gas (txParams call_txMeta))
   \<and> \<not> (truthy (to (txParams call_txMeta))
        \<and> transactionCategory call_txMeta = Some (SEND_ETHER_ACTION_KEY sample_env))
   \<and> gas (txParams (fst (snd (estimateTxGasAndCollateral sample_env call_txMeta ''0x0186A0'' None)))) =
       Some ''0x17318''
   \<and> fst (estimateTxGasAndCollateral sample_env call_txMeta ''0x0186A0'' None) =
       Inr (Obj \<lparr>gasUsed = Some ''0x2710'', storageCollateralized = Some ''0x40''\<rparr>)
   \<and> length (snd (snd (estimateTxGasAndCollateral sample_env call_txMeta ''0x0186A0'' None))) = 1"
proof -
  have h1: "\<not> truthy (gas (txParams call_txMeta))"
    and h2: "\<not> (truthy (to (txParams call_txMeta))
        \<and> transactionCategory call_txMeta = Some (SEND_ETHER_ACTION_KEY sample_env))"
    by (simp_all add: sample_defs truthy_def)
  have v: "bnToHex (hexToBn ''0x0186A0'' * 19 div 20) = ''0x17318''"
    by (simp add: hexToBn_def stripHexPrefix_def hex_val_def bnToHex_def hex_digits.simps
        hex_digit_def)
  from fallback_then_network_estimate [OF h1 h2, of "''0x0186A0''" None]
  show ?thesis
    using h1 h2 v by (auto simp add: sample_env_def)
qed

subsection \<open>Storage precedence\<close>

text \<open>
  Claim C7. On a run that fetched the block, whose estimation did not throw and that
  ends with \<^verbatim>\<open>simpleSend\<close> unset, a non-empty \<^verbatim>\<open>storageLimit\<close> given by the caller is
  the final \<^verbatim>\<open>estimatedStorage\<close>, whatever the provider (and so whatever
  \<^verbatim>\<open>storageCollateralized\<close> it answered).
\<close>

theorem caller_storage_limit_wins:
  assumes "getBlockByNumber e = Inr blk"
    and "fst (estimateTxGasAndCollateral e m (gasLimit blk) cr) = Inr r"
    and "truthy (storageLimit (txParams m))"
    and "\<not> simpleSend (fst (snd (analyzeGasUsage e m cr)))"
  shows "estimatedStorage (fst (snd (analyzeGasUsage e m cr))) = storageLimit (txParams m)"
  using assms
  by (auto simp add: estimateTxGasAndCollateral_def analyzeGasUsage_def setTxGas_def Let_def
      split: if_splits sum.splits prod.splits)

theorem caller_storage_limit_wins_witness:
  "fst (estimateTxGasAndCollateral sample_env call_txMeta (gasLimit sample_block) None) =
     Inr (Obj \<lparr>gasUsed = Some ''0x2710'', storageCollateralized = Some ''0x40''\<rparr>)
   \<and> truthy (storageLimit (txParams call_txMeta))
   \<and> \<not> simpleSend (fst (snd (analyzeGasUsage sample_env call_txMeta None)))
   \<and> estimatedStorage (fst (snd (analyzeGasUsage sample_env call_txMeta None))) = Some ''0x80''"
proof -
  have h1: "getBlockByNumber sample_env = Inr sample_block"
    by (simp add: sample_defs)
  have h2: "fst (estimateTxGasAndCollateral sample_env call_txMeta (gasLimit sample_block) None) =
     Inr (Obj \<lparr>gasUsed = Some ''0x2710'', storageCollateralized = Some ''0x40''\<rparr>)"
    by (simp add: sample_defs estimateTxGasAndCollateral_def Let_def truthy_def)
  have h3: "truthy (storageLimit (txParams call_txMeta))"
    by (simp add: sample_defs truthy_def)
  have h4: "\<not> simpleSend (fst (snd (analyzeGasUsage sample_env call_txMeta None)))"
    by (simp add: sample_defs analyzeGasUsage_def estimateTxGasAndCollateral_def setTxGas_def
        Let_def truthy_def)
  from caller_storage_limit_wins [OF h1 h2 h3 h4]
  show ?thesis
    using h2 h3 h4 by (simp add: sample_defs)
qed

subsection \<open>The block fetch\<close>

text \<open>
  Claim C9. If fetching the latest block is rejected, \<^verbatim>\<open>analyzeGasUsage\<close> is rejected
  with that very error, the record is as it was (in particular \<^verbatim>\<open>simulationFails\<close> is
  not written) and no request is sent. If the block is fetched, nothing is thrown to
  the caller, and an error thrown by the estimator ends up in \<^verbatim>\<open>simulationFails\<close>.
\<close>

theorem block_fetch_failure_propagates:
  "(getBlockByNumber e = Inl err \<longrightarrow> analyzeGasUsage e m cr = (Some err, m, []))
   \<and> (getBlockByNumber e = Inr blk \<longrightarrow>
        fst (analyzeGasUsage e m cr) = None
        \<and> (\<forall>err'. fst (estimateTxGasAndCollateral e m (gasLimit blk) cr) = Inl err' \<longrightarrow>
             (\<exists>d. simulationFails (fst (snd (analyzeGasUsage e m cr))) =
                Some \<lparr>reason = err_message err', errorKey = err_errorKey err', debug = d\<rparr>)))"
  by (auto simp add: analyzeGasUsage_def split: sum.splits prod.splits)

theorem block_fetch_failure_propagates_witness:
  "getBlockByNumber offline_env = Inl unreachable
   \<and> analyzeGasUsage offline_env call_txMeta None = (Some unreachable, call_txMeta, [])
   \<and> getBlockByNumber rejecting_env = Inr sample_block
   \<and> fst (estimateTxGasAndCollateral rejecting_env call_txMeta (gasLimit sample_block) None) =
       Inl reverted
   \<and> fst (analyzeGasUsage rejecting_env call_txMeta None) = None
   \<and> (\<exists>d. simulationFails (fst (snd (analyzeGasUsage rejecting_env call_txMeta None))) =
         Some \<lparr>reason = ''execution reverted'', errorKey = None, debug = d\<rparr>)"
proof -
  have h1: "getBlockByNumber offline_env = Inl unreachable"
    and h2: "getBlockByNumber rejecting_env = Inr sample_block"
    by (simp_all add: sample_defs)
  have h3: "fst (estimateTxGasAndCollateral rejecting_env call_txMeta (gasLimit sample_block) None) =
       Inl reverted"
    by (simp add: sample_defs estimateTxGasAndCollateral_def Let_def truthy_def)
  from block_fetch_failure_propagates
    [where e = offline_env and err = unreachable and m = call_txMeta and cr = None] h1
  have a: "analyzeGasUsage offline_env call_txMeta None = (Some unreachable, call_txMeta, [])"
    by simp
  from block_fetch_failure_propagates
    [where e = rejecting_env and blk = sample_block and m = call_txMeta and cr = None] h2 h3
  have b: "fst (analyzeGasUsage rejecting_env call_txMeta None) = None
     \<and> (\<exists>d. simulationFails (fst (snd (analyzeGasUsage rejecting_env call_txMeta None))) =
         Some \<lparr>reason = err_message reverted, errorKey = err_errorKey reverted, debug = d\<rparr>)"
    by simp
  from a b h1 h2 h3 show ?thesis
    by (simp add: reverted_def)
qed

subsection \<open>Failed estimation\<close>

text \<open>
  Claim C2, as stated, says that a failed estimation leaves \<^verbatim>\<open>params.gas\<close> and
  \<^verbatim>\<open>params.storageLimit\<close> as they were. It does not: for a blank transaction whose
  \<^verbatim>\<open>estimateGas\<close> request is rejected, the estimator has already defaulted
  \<^verbatim>\<open>storageLimit\<close> to \<^verbatim>\<open>0x0\<close> (line 82) and written the fallback into \<^verbatim>\<open>gas\<close>
  (line 125) when the request is sent, and the handler of lines 43--56 restores neither.
\<close>

theorem failed_estimate_keeps_fallback_counterexample:
  "getBlockByNumber rejecting_env = Inr sample_block
   \<and> fst (estimateTxGasAndCollateral rejecting_env blank_txMeta (gasLimit sample_block) None) =
       Inl reverted
   \<and> gas (txParams blank_txMeta) = None
   \<and> gas (txParams (fst (snd (analyzeGasUsage rejecting_env blank_txMeta None)))) = Some ''0x17318''
   \<and> storageLimit (txParams blank_txMeta) = None
   \<and> storageLimit (txParams (fst (snd (analyzeGasUsage rejecting_env blank_txMeta None)))) =
       Some ''0x0''"
  by (simp add: sample_defs analyzeGasUsage_def estimateTxGasAndCollateral_def Let_def truthy_def
      SIMPLE_STORAGE_COST_def BnMultiplyByFraction_def hexToBn_def stripHexPrefix_def hex_val_def
      bnToHex_def hex_digits.simps hex_digit_def)

text \<open>
  Claim C2, amended. When the block is fetched and the estimator throws,
  \<^verbatim>\<open>analyzeGasUsage\<close> resolves, \<^verbatim>\<open>simulationFails\<close> holds the error's message and key
  and a \<^verbatim>\<open>debug\<close> record with the block's number and gas limit (and the code-lookup
  response when the key is the non-contract one), and \<^verbatim>\<open>estimatedGas\<close> and
  \<^verbatim>\<open>estimatedStorage\<close> are as before. \<^verbatim>\<open>params.storageLimit\<close> is as before when it
  was non-empty and \<^verbatim>\<open>0x0\<close> otherwise. \<^verbatim>\<open>params.gas\<close> is as before when the
  transaction has a recipient and the plain-transfer category (the non-contract-call
  rejection); otherwise, the failure being that of \<^verbatim>\<open>estimateGas\<close>, it is the
  provisional fallback \<open>\<lfloor>blockGasLimit * 19 / 20\<rfloor>\<close>.
\<close>

theorem failed_estimate_record:
  assumes "getBlockByNumber e = Inr blk"
    and "fst (estimateTxGasAndCollateral e m (gasLimit blk) cr) = Inl err"
  shows "fst (analyzeGasUsage e m cr) = None
       \<and> simulationFails (fst (snd (analyzeGasUsage e m cr))) = Some
           \<lparr>reason = err_message err, errorKey = err_errorKey err,
            debug = \<lparr>blockNumber = number blk, blockGasLimit = gasLimit blk,
                     getCodeResponse =
                       (if err_errorKey err = Some (TRANSACTION_NO_CONTRACT_ERROR_KEY e)
                        then Some (err_getCodeResponse err) else None)\<rparr>\<rparr>
       \<and> estimatedGas (fst (snd (analyzeGasUsage e m cr))) = estimatedGas m
       \<and> estimatedStorage (fst (snd (analyzeGasUsage e m cr))) = estimatedStorage m
       \<and> storageLimit (txParams (fst (snd (analyzeGasUsage e m cr)))) =
           (if truthy (storageLimit (txParams m)) then storageLimit (txParams m)
            else Some SIMPLE_STORAGE_COST)
       \<and> gas (txParams (fst (snd (analyzeGasUsage e m cr)))) =
           (if truthy (to (txParams m)) \<and> transactionCategory m = Some (SEND_ETHER_ACTION_KEY e)
            then gas (txParams m)
            else Some (bnToHex (hexToBn (gasLimit blk) * 19 div 20)))"
  using assms
  by (auto simp add: estimateTxGasAndCollateral_def analyzeGasUsage_def Let_def
      BnMultiplyByFraction_def split: if_splits sum.splits prod.splits)

theorem failed_estimate_record_witness:
  "getBlockByNumber rejecting_env = Inr sample_block
   \<and> fst (estimateTxGasAndCollateral rejecting_env call_txMeta (gasLimit sample_block) None) =
       Inl reverted
   \<and> simulationFails (fst (snd (analyzeGasUsage rejecting_env call_txMeta None))) = Some
       \<lparr>reason = ''execution reverted'', errorKey = None,
        debug = \<lparr>blockNumber = ''0x2a'', blockGasLimit = ''0x0186A0'', getCodeResponse = None\<rparr>\<rparr>
   \<and> estimatedGas (fst (snd (analyzeGasUsage rejecting_env call_txMeta None))) = None
   \<and> estimatedStorage (fst (snd (analyzeGasUsage rejecting_env call_txMeta None))) = None
   \<and> storageLimit (txParams (fst (snd (analyzeGasUsage rejecting_env call_txMeta None)))) =
       Some ''0x80''
   \<and> gas (txParams (fst (snd (analyzeGasUsage rejecting_env call_txMeta None)))) = Some ''0x17318''"
proof -
  have h1: "getBlockByNumber rejecting_env = Inr sample_block"
    by (simp add: sample_defs)
  have h2: "fst (estimateTxGasAndCollateral rejecting_env call_txMeta (gasLimit sample_block) None) =
       Inl reverted"
    by (simp add: sample_defs estimateTxGasAndCollateral_def Let_def truthy_def)
  have v: "bnToHex (hexToBn (gasLimit sample_block) * 19 div 20) = ''0x17318''"
    by (simp add: sample_block_def hexToBn_def stripHexPrefix_def hex_val_def bnToHex_def
        hex_digits.simps hex_digit_def)
  from failed_estimate_record [OF h1 h2]
  show ?thesis
    using h1 h2 v by (simp add: sample_defs truthy_def)
qed

subsection \<open>What the provider's answer can influence\<close>

lemma setTxGas_ignores_storage_estimate:
  "storageLimitSpecified m \<Longrightarrow> setTxGas m lim gu sc = setTxGas m lim gu sc'"
  by (simp add: setTxGas_def Let_def)

lemma estimate_record_ignores_answer:
  "snd (estimateTxGasAndCollateral (e\<lparr>estimateGas := g\<rparr>) m lim cr) =
   snd (estimateTxGasAndCollateral e m lim cr)"
  by (simp add: estimateTxGasAndCollateral_def Let_def cong: option.case_cong)

text \<open>
  Changing the objects that \<^verbatim>\<open>estimateGas\<close> answers by \<open>h\<close> changes what the estimator
  settles to by \<open>h\<close> as well, and only on the path that sends the request.
\<close>

lemma estimate_answer_mapped:
  "fst (estimateTxGasAndCollateral
          (e\<lparr>estimateGas := \<lambda>p. map_sum id h (estimateGas e p)\<rparr>) m lim cr) =
   map_sum id
     (\<lambda>r. case r of
             Obj x \<Rightarrow>
               if \<not> truthy (gas (txParams m))
                  \<and> \<not> (truthy (to (txParams m))
                       \<and> transactionCategory m = Some (SEND_ETHER_ACTION_KEY e))
               then Obj (h x) else Obj x
           | Str s \<Rightarrow> Str s)
     (fst (estimateTxGasAndCollateral e m lim cr))"
  by (auto simp add: estimateTxGasAndCollateral_def Let_def sum.map_comp comp_def
      cong: option.case_cong)

lemma analyzeGasUsage_ignores_storage_estimate:
  "analyzeGasUsage
     (e\<lparr>estimateGas := \<lambda>p. map_sum id (\<lambda>r. r\<lparr>storageCollateralized := s'\<rparr>) (estimateGas e p)\<rparr>)
     m cr = analyzeGasUsage e m cr"
proof (cases "getBlockByNumber e")
  case (Inl err)
  then show ?thesis
    by (simp add: analyzeGasUsage_def)
next
  case (Inr blk)
  let ?h = "\<lambda>r::estimate. r\<lparr>storageCollateralized := s'\<rparr>"
  let ?e' = "e\<lparr>estimateGas := \<lambda>p. map_sum id ?h (estimateGas e p)\<rparr>"
  let ?E = "estimateTxGasAndCollateral e m (gasLimit blk) cr"
  let ?E' = "estimateTxGasAndCollateral ?e' m (gasLimit blk) cr"
  obtain res m1 reqs where E: "?E = (res, m1, reqs)"
    using prod_cases3 by blast
  have "snd ?E' = snd ?E"
    by (rule estimate_record_ignores_answer)
  with E have "snd ?E' = (m1, reqs)"
    by simp
  then obtain res' where E': "?E' = (res', m1, reqs)"
    by (cases ?E') simp
  have flag: "storageLimitSpecified m1"
    using estimate_marks_storage_specified [of e m "gasLimit blk" cr] by (simp add: E)
  have writer: "setTxGas m1 (gasLimit blk) (gasUsed_of r') (storageCollateralized_of r') =
                setTxGas m1 (gasLimit blk) (gasUsed_of r) (storageCollateralized_of r)"
    if "gasUsed_of r' = gasUsed_of r" for r r'
    using that setTxGas_ignores_storage_estimate
      [OF flag, where lim = "gasLimit blk" and gu = "gasUsed_of r"
         and sc = "storageCollateralized_of r'" and sc' = "storageCollateralized_of r"]
    by simp
  have mapped: "res' =
     map_sum id
       (\<lambda>r. case r of
               Obj x \<Rightarrow>
                 if \<not> truthy (gas (txParams m))
                    \<and> \<not> (truthy (to (txParams m))
                         \<and> transactionCategory m = Some (SEND_ETHER_ACTION_KEY e))
                 then Obj (?h x) else Obj x
             | Str s \<Rightarrow> Str s)
       res"
    using estimate_answer_mapped [where e = e and h = ?h and m = m and lim = "gasLimit blk" and cr = cr] by (simp add: E E')
  show ?thesis
  proof (cases res)
    case (Inl err)
    with mapped have "res' = Inl err"
      by simp
    with Inl Inr show ?thesis
      by (simp add: analyzeGasUsage_def E E')
  next
    case (Inr r)
    with mapped obtain r' where r': "res' = Inr r'" and same: "gasUsed_of r' = gasUsed_of r"
      by (cases r) auto
    from \<open>getBlockByNumber e = Inr blk\<close> show ?thesis
      by (simp add: analyzeGasUsage_def E E' Inr r' writer [OF same])
  qed
qed

subsection \<open>The storage limit is always marked as specified\<close>

text \<open>
  Claim C10. Whatever the transaction, the record that leaves
  \<^verbatim>\<open>estimateTxGasAndCollateral\<close> has \<^verbatim>\<open>storageLimitSpecified\<close> set, and its
  \<^verbatim>\<open>params.storageLimit\<close> is the caller's value when that was non-empty and \<^verbatim>\<open>0x0\<close>
  otherwise. Consequently, once the block is fetched: the flag is still set at the end
  and the metadata writer leaves \<^verbatim>\<open>params.storageLimit\<close> as the estimator left it (the
  guard of line 167 is false whenever \<^verbatim>\<open>analyzeGasUsage\<close> reaches it); on a run whose
  estimation did not throw and that ends with \<^verbatim>\<open>simpleSend\<close> unset, the final
  \<^verbatim>\<open>estimatedStorage\<close> is \<^verbatim>\<open>params.storageLimit\<close>; and replacing the
  \<^verbatim>\<open>storageCollateralized\<close> of every answer of the provider by any other value changes
  nothing in the outcome.
\<close>

theorem storage_limit_always_specified:
  "storageLimitSpecified (fst (snd (estimateTxGasAndCollateral e m lim cr)))
   \<and> storageLimit (txParams (fst (snd (estimateTxGasAndCollateral e m lim cr)))) =
       (if truthy (storageLimit (txParams m)) then storageLimit (txParams m)
        else Some SIMPLE_STORAGE_COST)
   \<and> (getBlockByNumber e = Inr blk \<longrightarrow>
        storageLimitSpecified (fst (snd (analyzeGasUsage e m cr)))
        \<and> storageLimit (txParams (fst (snd (analyzeGasUsage e m cr)))) =
            storageLimit (txParams (fst (snd (estimateTxGasAndCollateral e m (gasLimit blk) cr))))
        \<and> ((\<exists>r. fst (estimateTxGasAndCollateral e m (gasLimit blk) cr) = Inr r)
             \<and> \<not> simpleSend (fst (snd (analyzeGasUsage e m cr))) \<longrightarrow>
             estimatedStorage (fst (snd (analyzeGasUsage e m cr))) =
               storageLimit (txParams (fst (snd (analyzeGasUsage e m cr))))))
   \<and> analyzeGasUsage
        (e\<lparr>estimateGas := \<lambda>p. map_sum id (\<lambda>r. r\<lparr>storageCollateralized := s'\<rparr>) (estimateGas e p)\<rparr>)
        m cr = analyzeGasUsage e m cr"
proof -
  let ?est = "\<lambda>lim. estimateTxGasAndCollateral e m lim cr"
  have flag: "storageLimitSpecified (fst (snd (?est lim)))" for lim
    by (rule estimate_marks_storage_specified)
  have run: "getBlockByNumber e = Inr blk \<Longrightarrow>
      fst (snd (analyzeGasUsage e m cr)) =
        (case fst (?est (gasLimit blk)) of
           Inl err \<Rightarrow> (fst (snd (?est (gasLimit blk))))\<lparr>simulationFails := Some
                    \<lparr>reason = err_message err, errorKey = err_errorKey err,
                     debug = \<lparr>blockNumber = number blk, blockGasLimit = gasLimit blk,
                              getCodeResponse =
                                (if err_errorKey err = Some (TRANSACTION_NO_CONTRACT_ERROR_KEY e)
                                 then Some (err_getCodeResponse err) else None)\<rparr>\<rparr>\<rparr>
         | Inr r \<Rightarrow> setTxGas (fst (snd (?est (gasLimit blk)))) (gasLimit blk)
                     (gasUsed_of r) (storageCollateralized_of r))"
    by (simp add: analyzeGasUsage_def split: sum.splits prod.splits)
  have end_flag: "getBlockByNumber e = Inr blk \<Longrightarrow>
      storageLimitSpecified (fst (snd (analyzeGasUsage e m cr)))"
    using flag [of "gasLimit blk"] by (simp add: run setTxGas_flag split: sum.splits)
  have kept: "getBlockByNumber e = Inr blk \<Longrightarrow>
      storageLimit (txParams (fst (snd (analyzeGasUsage e m cr)))) =
        storageLimit (txParams (fst (snd (?est (gasLimit blk)))))"
    using flag [of "gasLimit blk"]
    by (simp add: run setTxGas_keeps_storageLimit split: sum.splits)
  have storage: "getBlockByNumber e = Inr blk \<Longrightarrow>
      fst (?est (gasLimit blk)) = Inr r \<Longrightarrow>
      \<not> simpleSend (fst (snd (analyzeGasUsage e m cr))) \<Longrightarrow>
      estimatedStorage (fst (snd (analyzeGasUsage e m cr))) =
        storageLimit (txParams (fst (snd (analyzeGasUsage e m cr))))" for r
    using flag [of "gasLimit blk"]
    by (simp add: run) (simp add: setTxGas_def Let_def split: if_splits)
  note indep = analyzeGasUsage_ignores_storage_estimate [where e = e and s' = s' and m = m and cr = cr]
  from flag [of lim] estimate_storageLimit [of e m lim cr] end_flag kept storage indep
  show ?thesis
    by blast
qed

theorem storage_limit_always_specified_witness:
  "storageLimitSpecified (fst (snd (estimateTxGasAndCollateral sample_env blank_txMeta ''0x0186A0'' None)))
   \<and> storageLimit (txParams (fst (snd (estimateTxGasAndCollateral sample_env blank_txMeta ''0x0186A0'' None)))) =
       Some ''0x0''
   \<and> getBlockByNumber sample_env = Inr sample_block
   \<and> (\<exists>r. fst (estimateTxGasAndCollateral sample_env blank_txMeta (gasLimit sample_block) None) = Inr r)
   \<and> \<not> simpleSend (fst (snd (analyzeGasUsage sample_env blank_txMeta None)))
   \<and> estimatedStorage (fst (snd (analyzeGasUsage sample_env blank_txMeta None))) = Some ''0x0''
   \<and> storageLimit (txParams (fst (snd (analyzeGasUsage sample_env blank_txMeta None)))) = Some ''0x0''"
proof -
  have h1: "getBlockByNumber sample_env = Inr sample_block"
    by (simp add: sample_defs)
  have h2: "\<exists>r. fst (estimateTxGasAndCollateral sample_env blank_txMeta (gasLimit sample_block) None) = Inr r"
    by (simp add: sample_defs estimateTxGasAndCollateral_def Let_def truthy_def)
  have h3: "\<not> simpleSend (fst (snd (analyzeGasUsage sample_env blank_txMeta None)))"
    by (simp add: sample_defs analyzeGasUsage_def estimateTxGasAndCollateral_def setTxGas_def
        Let_def truthy_def)
  have h4: "\<not> truthy (storageLimit (txParams blank_txMeta))"
    by (simp add: sample_defs truthy_def)
  from storage_limit_always_specified
    [where e = sample_env and m = blank_txMeta and lim = "''0x0186A0''" and cr = None
       and blk = sample_block]
  show ?thesis
    using h1 h2 h3 h4 by (simp add: sample_block_def SIMPLE_STORAGE_COST_def)
qed

subsection \<open>The buffer calculator\<close>

lemma value_of_words_of: "value_of (words_of n) = n"
proof (induction n rule: words_of.induct)
  case (1 n)
  show ?case
  proof (cases "n < 67108864")
    case True
    then show ?thesis
      by (subst words_of.simps) simp
  next
    case False
    with 1 have "value_of (words_of (n div 67108864)) = n div 67108864"
      by simp
    with False show ?thesis
      by (subst words_of.simps) simp
  qed
qed

lemma words_of_one: "n < 67108864 \<Longrightarrow> words_of n = [n]"
  by (subst words_of.simps) simp

lemma length_words_of: "0 < length (words_of n)"
  by (subst words_of.simps) simp

lemma words_of_long: "\<not> n < 67108864 \<Longrightarrow> 1 < length (words_of n)"
  using length_words_of [of "n div 67108864"] by (subst words_of.simps) simp

text \<open>
  As long as the block gas limit fits one word (it is below \<open>2\<^sup>2\<^sup>6\<close>), the scaling by
  words is the scaling of the number, no zero word appears, and \<^verbatim>\<open>addGasBuffer\<close> is
  the function of the three branches with \<open>upper = \<lfloor>blockGasLimit * 9 / 10\<rfloor>\<close> and
  \<open>buffered = \<lfloor>initial * 3 / 2\<rfloor>\<close>, for every initial value.
\<close>

lemma addGasBuffer_one_word_block:
  assumes "hexToBn b < 67108864"
  shows "addGasBuffer i b =
     bnToHex (if hexToBn b * 9 div 10 < hexToBn i then hexToBn i
              else if hexToBn i * 3 div 2 < hexToBn b * 9 div 10 then hexToBn i * 3 div 2
              else hexToBn b * 9 div 10)"
proof -
  define n where "n = hexToBn i"
  define u where "u = hexToBn b * 9 div 10"
  define w where "w = n * 3 div 2"
  from assms have u_small: "u < 67108864"
    by (simp add: u_def)
  from assms have upper: "muln (words_of (hexToBn b)) (9, 10) = [u]"
    by (simp add: words_of_one muln_def u_def Let_def)
  have "addGasBuffer i b = bnToHex (if u < n then n else if w < u then w else u)"
  proof (cases "n < 67108864")
    case True
    then have ws: "words_of (hexToBn i) = [n]"
      by (simp add: words_of_one n_def)
    have carry: "(w div 67108864 = 0) = (w < 67108864)"
      by (simp add: div_eq_0_iff)
    have buffered: "muln [n] (3, 2) =
        (if w < 67108864 then [w] else [w mod 67108864, w div 67108864])"
      by (simp add: muln_def Let_def w_def [symmetric] carry)
    have above: "gt [n] [u] = (u < n)"
      by (simp add: gt_def ucmp_def)
    have below: "lt (muln [n] (3, 2)) [u] = (w < u)"
      using u_small by (simp add: buffered lt_def ucmp_def)
    have scaled: "value_of (muln [n] (3, 2)) = w"
      by (simp add: buffered)
    show ?thesis
      by (simp add: addGasBuffer_def Let_def upper ws above below scaled)
  next
    case False
    then have "1 < length (words_of (hexToBn i))"
      unfolding n_def by (rule words_of_long)
    then have above: "gt (words_of (hexToBn i)) [u]"
      by (simp add: gt_def ucmp_def)
    have "addGasBuffer i b = bnToHex (hexToBn i)"
      by (simp add: addGasBuffer_def Let_def upper above value_of_words_of)
    with False u_small show ?thesis
      by (simp add: n_def)
  qed
  then show ?thesis
    by (simp add: n_def u_def w_def)
qed

lemmas buffer_eval =
  addGasBuffer_def hexToBn_def stripHexPrefix_def hex_val_def bnToHex_def hex_digits.simps
  hex_digit_def words_of.simps muln_def gt_def lt_def ucmp_def Let_def

text \<open>
  Claim C1 says that \<^verbatim>\<open>addGasBuffer\<close> returns \<open>\<lfloor>initial * 3 / 2\<rfloor>\<close> whenever the
  initial value is at most \<open>upper = \<lfloor>blockGasLimit * 9 / 10\<rfloor>\<close> and the scaled value is
  below \<open>upper\<close>. The code does not, once a number takes more than one word, because
  \<^verbatim>\<open>muln\<close> scales each word by itself and drops the fraction of each. For the
  initial value \<^verbatim>\<open>0x5f5e100\<close> (100000000) and the block gas limit \<^verbatim>\<open>0xbebc200\<close>
  (200000000) the claim asks for \<^verbatim>\<open>0x8f0d180\<close> (150000000) and the code returns
  \<^verbatim>\<open>0x6f0d180\<close> (116445568). For the initial value \<^verbatim>\<open>0x4000000\<close> (the words 0
  and 1) and the block gas limit \<^verbatim>\<open>0xffffffffff\<close> the words are scaled to 0 and 1
  again and the initial value comes back unbuffered, where the claim asks for
  \<^verbatim>\<open>0x6000000\<close>.
\<close>

theorem addGasBuffer_scales_word_by_word:
  "addGasBuffer ''0x5f5e100'' ''0xbebc200'' = ''0x6f0d180''
   \<and> hexToBn ''0x5f5e100'' \<le> hexToBn ''0xbebc200'' * 9 div 10
   \<and> hexToBn ''0x5f5e100'' * 3 div 2 < hexToBn ''0xbebc200'' * 9 div 10
   \<and> bnToHex (hexToBn ''0x5f5e100'' * 3 div 2) = ''0x8f0d180''
   \<and> muln (words_of (hexToBn ''0x5f5e100'')) (3, 2) = [49336704, 1]
   \<and> addGasBuffer ''0x4000000'' ''0xffffffffff'' = ''0x4000000''
   \<and> hexToBn ''0x4000000'' \<le> hexToBn ''0xffffffffff'' * 9 div 10
   \<and> hexToBn ''0x4000000'' * 3 div 2 < hexToBn ''0xffffffffff'' * 9 div 10
   \<and> bnToHex (hexToBn ''0x4000000'' * 3 div 2) = ''0x6000000''
   \<and> muln (words_of (hexToBn ''0x4000000'')) (3, 2) = [0, 1]"
  by (simp add: buffer_eval)

text \<open>
  Claim C8 says that \<^verbatim>\<open>addGasBuffer\<close> never returns less than its input and that an
  output that has reached \<open>upper\<close> does not grow when buffered again. The code does
  both for a block gas limit of two words. With the block gas limit \<^verbatim>\<open>0x5f5e100\<close>
  (100000000), \<^verbatim>\<open>muln(0.9)\<close> leaves the words 29602022 and 0; the zero word at the top
  still counts for \<^verbatim>\<open>gt\<close> and \<^verbatim>\<open>lt\<close>, which compare the number of words first. The
  initial value \<^verbatim>\<open>0x2faf080\<close> (50000000, one word) is therefore not above, its scaled
  value (two words, the top one 1) is not below, and the result is \<^verbatim>\<open>0x1c3b0e6\<close>
  (29602022), less than the input. That result is the value of \<^verbatim>\<open>upperGasLimitBn\<close>;
  buffered again it grows to \<^verbatim>\<open>0x2a58959\<close> (44403033).
\<close>

theorem addGasBuffer_returns_less_than_input:
  "addGasBuffer ''0x2faf080'' ''0x5f5e100'' = ''0x1c3b0e6''
   \<and> hexToBn ''0x1c3b0e6'' < hexToBn ''0x2faf080''
   \<and> muln (words_of (hexToBn ''0x5f5e100'')) (9, 10) = [29602022, 0]
   \<and> value_of (muln (words_of (hexToBn ''0x5f5e100'')) (9, 10)) = hexToBn ''0x1c3b0e6''
   \<and> addGasBuffer ''0x1c3b0e6'' ''0x5f5e100'' = ''0x2a58959''
   \<and> hexToBn ''0x1c3b0e6'' < hexToBn ''0x2a58959''"
  by (simp add: buffer_eval)

end
